theory Spec2Isabelle
  imports Main "HOL-Library.Char_ord" "HOL-Library.List_Lexorder" "HOL-Library.AList"
begin

section \<open>The lifecycle manager plugin of rqt\_lifecycle\_manager\<close>

text \<open>
  A shallow embedding of \<^verbatim>\<open>src/rqt_lifecycle_manager/lifecycle_manager.py\<close>.
  The plugin object becomes a record that every method takes and returns; the three ROS
  services the plugin calls (\<^verbatim>\<open>get_node_names\<close>, \<^verbatim>\<open>call_get_states\<close>,
  \<^verbatim>\<open>call_change_states\<close>) are not part of the repository and are parameters of the
  model: functions from the history of earlier calls and the request to the reply.
  A Python exception is a value: every method returns a pair of the outcome
  (\<open>Inl\<close> the exception raised, \<open>Inr\<close> the value returned) and the plugin as the method
  left it.
\<close>

subsection \<open>Data\<close>

datatype py_exn =
    RuntimeError string
  | KeyError string
  | IndexError
  | AttributeError string
  | OtherError string

text \<open>\<^verbatim>\<open>NodeState = namedtuple("NodeState", ["name", "state"])\<close>: one row of the table;
  the state is the label string of the lifecycle state.\<close>

record NodeState =
  name :: string
  state :: string

text \<open>An entry of the list \<^verbatim>\<open>get_node_names\<close> returns (a named tuple of the ROS
  command line library); the plugin reads its field \<^verbatim>\<open>name\<close> and compares whole
  lists of entries.\<close>

record NodeName =
  nn_name :: string
  nn_namespace :: string
  nn_full_name :: string

text \<open>A value of the dictionary \<^verbatim>\<open>call_get_states\<close> returns: the state message of
  the node, of which the plugin reads the label, or the exception of the service call.\<close>

datatype state_result = GotState string | GotException string

text \<open>A value of the dictionary \<^verbatim>\<open>call_change_states\<close> returns: the success flag of
  the response (as Python's truth value), or the exception of the service call.\<close>

datatype change_result = ChangeFlag bool | ChangeException string

text \<open>A Python dictionary is an association list read with \<^const>\<open>map_of\<close>; its keys
  are the first components, each once.\<close>

definition dict_keys :: "('k \<times> 'v) list \<Rightarrow> 'k list" where
  "dict_keys d = remdups (map fst d)"

text \<open>Reading a Python list at an integer position, as \<^verbatim>\<open>self._lc_nodes[row]\<close>
  does: positions from 0 read from the front, the positions \<open>-1\<close> down to minus the
  length read from the back, and every other position raises \<^verbatim>\<open>IndexError\<close>.\<close>

definition py_index :: "'a list \<Rightarrow> int \<Rightarrow> py_exn + 'a" where
  "py_index xs i =
     (if 0 \<le> i \<and> i < int (length xs) then Inr (xs ! nat i)
      else if i < 0 \<and> - int (length xs) \<le> i then Inr (xs ! nat (int (length xs) + i))
      else Inl IndexError)"

text \<open>The table model \<^verbatim>\<open>LifecycleNodeTable\<close>: the rows and the icon dictionary
  (an icon is the path of its file).\<close>

record LifecycleNodeTable =
  table_data :: "NodeState list"
  table_icons :: "(string \<times> string) list"

text \<open>The plugin \<^verbatim>\<open>LifecycleManager\<close>. The fields after \<open>icons\<close> are not attributes
  of the Python object: they record what the plugin did to the world around it, the lines
  printed to standard output and standard error, and the requests sent to each service
  so far.\<close>

record plugin =
  lc_node_names :: "NodeName list"
  lc_nodes :: "NodeState list"
  table_model :: "LifecycleNodeTable option"
  icons :: "(string \<times> string) list"
  stdout :: "string list"
  stderr :: "string list"
  list_calls :: nat
  state_calls :: "string list list"
  change_calls :: "(string \<times> string) list"

text \<open>The services. \<open>get_node_names\<close> answers the poll with the given number (it may
  raise); \<open>call_get_states\<close> answers a list of node names, \<open>call_change_states\<close> a node
  name and a transition label, each after the requests made before.\<close>

record services =
  get_node_names :: "nat \<Rightarrow> py_exn + NodeName list"
  call_get_states :: "string list list \<Rightarrow> string list \<Rightarrow> (string \<times> state_result) list"
  call_change_states ::
    "(string \<times> string) list \<Rightarrow> string \<Rightarrow> string \<Rightarrow> (string \<times> change_result) list"

subsection \<open>Construction\<close>

definition state_icons :: "string \<Rightarrow> (string \<times> string) list" where
  "state_icons path =
     [(''active'', path @ ''/resource/led_green.png''),
      (''finalized'', path @ ''/resource/led_off.png''),
      (''inactive'', path @ ''/resource/led_red.png''),
      (''unconfigured'', path @ ''/resource/led_off.png'')]"

definition init :: "string \<Rightarrow> plugin" where
  "init path =
     \<lparr>lc_node_names = [], lc_nodes = [], table_model = None, icons = state_icons path,
      stdout = [], stderr = [], list_calls = 0, state_calls = [], change_calls = []\<rparr>"

subsection \<open>Polling\<close>

definition exception_line :: "string \<Rightarrow> string \<Rightarrow> string" where
  "exception_line node_name e =
     ''Exception while calling service of node '' @ [CHR 0x27] @ node_name @ [CHR 0x27]
       @ '': '' @ e"

definition show_lc_nodes :: "plugin \<Rightarrow> plugin" where
  "show_lc_nodes st =
     st\<lparr>table_model := Some \<lparr>table_data = lc_nodes st, table_icons = icons st\<rparr>\<rparr>"

text \<open>The first inner loop of \<^verbatim>\<open>_update_nodes_state\<close>, over the sorted keys: an
  exception is printed to standard error and its key deleted from the dictionary.\<close>

fun output_exceptions ::
  "string list \<Rightarrow> (string \<times> state_result) list \<Rightarrow> plugin
     \<Rightarrow> (py_exn + (string \<times> state_result) list) \<times> plugin" where
  "output_exceptions [] states st = (Inr states, st)"
| "output_exceptions (node_name # ks) states st =
     (case map_of states node_name of
        None \<Rightarrow> (Inl (KeyError node_name), st)
      | Some (GotException e) \<Rightarrow>
          output_exceptions ks (AList.delete node_name states)
            (st\<lparr>stderr := stderr st @ [exception_line node_name e]\<rparr>)
      | Some (GotState l) \<Rightarrow> output_exceptions ks states st)"

text \<open>The second inner loop, over the sorted keys that are left: a row is appended for
  each. Reading the label of an exception would raise.\<close>

fun output_states ::
  "string list \<Rightarrow> (string \<times> state_result) list \<Rightarrow> plugin \<Rightarrow> (py_exn + unit) \<times> plugin" where
  "output_states [] states st = (Inr (), st)"
| "output_states (node_name # ks) states st =
     (case map_of states node_name of
        None \<Rightarrow> (Inl (KeyError node_name), st)
      | Some (GotException e) \<Rightarrow> (Inl (AttributeError ''label''), st)
      | Some (GotState l) \<Rightarrow>
          output_states ks states
            (st\<lparr>lc_nodes := lc_nodes st @ [\<lparr>name = node_name, state = l\<rparr>]\<rparr>))"

text \<open>The outer loop: one state query for each entry of the node list.\<close>

fun query_nodes :: "services \<Rightarrow> NodeName list \<Rightarrow> plugin \<Rightarrow> (py_exn + unit) \<times> plugin" where
  "query_nodes env [] st = (Inr (), st)"
| "query_nodes env (lc_node # ns) st =
     (let states = call_get_states env (state_calls st) [nn_name lc_node];
          st1 = st\<lparr>state_calls := state_calls st @ [[nn_name lc_node]]\<rparr>
      in case output_exceptions (sort (dict_keys states)) states st1 of
           (Inl e, st2) \<Rightarrow> (Inl e, st2)
         | (Inr states', st2) \<Rightarrow>
             (case output_states (sort (dict_keys states')) states' st2 of
                (Inl e, st3) \<Rightarrow> (Inl e, st3)
              | (Inr u, st3) \<Rightarrow> query_nodes env ns st3))"

definition update_nodes_state :: "services \<Rightarrow> plugin \<Rightarrow> (py_exn + unit) \<times> plugin" where
  "update_nodes_state env st =
     (case query_nodes env (lc_node_names st) (st\<lparr>lc_nodes := []\<rparr>) of
        (Inl e, st') \<Rightarrow> (Inl e, st')
      | (Inr u, st') \<Rightarrow> (Inr (), show_lc_nodes st'))"

text \<open>\<^verbatim>\<open>_list_lc_nodes\<close>: a \<^verbatim>\<open>RuntimeError\<close> of the directory is printed and answered
  with the empty list; any other exception goes on to the caller.\<close>

definition list_lc_nodes :: "services \<Rightarrow> plugin \<Rightarrow> (py_exn + NodeName list) \<times> plugin" where
  "list_lc_nodes env st =
     (let st1 = st\<lparr>list_calls := Suc (list_calls st)\<rparr>
      in case get_node_names env (list_calls st) of
           Inr node_names \<Rightarrow> (Inr node_names, st1)
         | Inl (RuntimeError e) \<Rightarrow> (Inr [], st1\<lparr>stdout := stdout st1 @ [e]\<rparr>)
         | Inl e \<Rightarrow> (Inl e, st1))"

definition update_node_list :: "services \<Rightarrow> plugin \<Rightarrow> (py_exn + unit) \<times> plugin" where
  "update_node_list env st =
     (case list_lc_nodes env st of
        (Inl e, st1) \<Rightarrow> (Inl e, st1)
      | (Inr node_names, st1) \<Rightarrow>
          if lc_node_names st1 \<noteq> node_names
          then update_nodes_state env (st1\<lparr>lc_node_names := node_names\<rparr>)
          else (Inr (), st1))"

subsection \<open>Transitions\<close>

definition call_transition ::
  "services \<Rightarrow> string \<Rightarrow> string \<Rightarrow> plugin \<Rightarrow> (py_exn + unit) \<times> plugin" where
  "call_transition env node_name transition_label st =
     (let results = call_change_states env (change_calls st) node_name transition_label;
          st1 = st\<lparr>change_calls := change_calls st @ [(node_name, transition_label)]\<rparr>
      in case map_of results node_name of
           None \<Rightarrow> (Inl (KeyError node_name), st1)
         | Some (ChangeException e) \<Rightarrow>
             (Inr (), st1\<lparr>stderr := stderr st1 @ [exception_line node_name e]\<rparr>)
         | Some (ChangeFlag b) \<Rightarrow>
             if b then (Inr (), st1\<lparr>stdout := stdout st1 @ [''Transitioning successful'']\<rparr>)
             else (Inr (), st1\<lparr>stderr := stderr st1 @ [''Transitioning failed'']\<rparr>))"

text \<open>Two calls one after the other: the second is made when the first returned, and
  not when it raised.\<close>

definition call_transitions ::
  "services \<Rightarrow> string \<Rightarrow> string \<Rightarrow> string \<Rightarrow> plugin \<Rightarrow> (py_exn + unit) \<times> plugin" where
  "call_transitions env node_name l1 l2 st =
     (case call_transition env node_name l1 st of
        (Inl e, st1) \<Rightarrow> (Inl e, st1)
      | (Inr u, st1) \<Rightarrow> call_transition env node_name l2 st1)"

text \<open>The entries of the context menus. The menu returns the entry the operator chose,
  or nothing; the handler compares it with the entries it added, by identity.\<close>

datatype menu_action =
    Deactivate | DeactivateAndCleanup | Shutdown
  | Activate | Cleanup
  | Configure | ConfigureAndActivate

definition action_text :: "menu_action \<Rightarrow> string" where
  "action_text a =
     (case a of
        Deactivate \<Rightarrow> ''Deactivate''
      | DeactivateAndCleanup \<Rightarrow> ''Deactivate and cleanup''
      | Shutdown \<Rightarrow> ''Shutdown''
      | Activate \<Rightarrow> ''Activate''
      | Cleanup \<Rightarrow> ''Cleanup''
      | Configure \<Rightarrow> ''Configure''
      | ConfigureAndActivate \<Rightarrow> ''Configure and Activate'')"

text \<open>The menu the handler builds for a row: the entries with the state whose icon each
  carries.\<close>

definition menu_entries :: "string \<Rightarrow> (string \<times> menu_action) list" where
  "menu_entries s =
     (if s = ''active'' then
        [(''inactive'', Deactivate), (''unconfigured'', DeactivateAndCleanup),
         (''finalized'', Shutdown)]
      else if s = ''inactive'' then
        [(''active'', Activate), (''unconfigured'', Cleanup), (''finalized'', Shutdown)]
      else if s = ''unconfigured'' then
        [(''inactive'', Configure), (''active'', ConfigureAndActivate),
         (''finalized'', Shutdown)]
      else [])"

text \<open>\<^verbatim>\<open>_on_lc_node_menu\<close>, from the row under the cursor and the entry the menu
  returned. The handler reads the row once, before the menu opens, and dispatches on the
  state and the name of that row; a negative row index returns at once, and a row index
  past the end of the list raises. Timer ticks that Qt delivers while the menu is open are
  calls of the polling methods of their own; this definition is the handler when no tick
  falls into the menu, and \<open>on_lc_node_menu_exec\<close> below is the handler with such ticks.\<close>

definition on_lc_node_menu ::
  "services \<Rightarrow> int \<Rightarrow> menu_action option \<Rightarrow> plugin \<Rightarrow> (py_exn + unit) \<times> plugin" where
  "on_lc_node_menu env row_at action st =
     (if row_at < 0 then (Inr (), st)
      else case py_index (lc_nodes st) row_at of
        Inl e \<Rightarrow> (Inl e, st)
      | Inr lc_node \<Rightarrow>
          if state lc_node = ''active'' then
            (if action = Some Deactivate then call_transition env (name lc_node) ''deactivate'' st
             else if action = Some Shutdown then call_transition env (name lc_node) ''shutdown'' st
             else if action = Some DeactivateAndCleanup then
               call_transitions env (name lc_node) ''deactivate'' ''cleanup'' st
             else (Inr (), st))
          else if state lc_node = ''inactive'' then
            (if action = Some Activate then call_transition env (name lc_node) ''activate'' st
             else if action = Some Cleanup then call_transition env (name lc_node) ''cleanup'' st
             else if action = Some Shutdown then call_transition env (name lc_node) ''shutdown'' st
             else (Inr (), st))
          else if state lc_node = ''unconfigured'' then
            (if action = Some Configure then call_transition env (name lc_node) ''configure'' st
             else if action = Some Shutdown then call_transition env (name lc_node) ''shutdown'' st
             else if action = Some ConfigureAndActivate then
               call_transitions env (name lc_node) ''configure'' ''activate'' st
             else (Inr (), st))
          else (Inr (), st))"

text \<open>The handler with what happens while the menu is open. \<^verbatim>\<open>menu.exec_\<close> runs an
  event loop until the operator chooses an entry or closes the menu, and the two timers
  of the plugin go on firing in it: each tick calls the method its timer is connected
  to, \<^verbatim>\<open>_update_node_list\<close> or \<^verbatim>\<open>_update_nodes_state\<close>. The row the handler read
  before the menu opened is not read again: the chosen entry is evaluated against the
  state and the name of that row, on the plugin as the ticks left it. An exception raised
  in a tick does not reach the handler; the plugin goes on as the tick left it.\<close>

datatype timer = UpdateNodeListTimer | UpdateNodesStateTimer

definition on_timeout :: "services \<Rightarrow> timer \<Rightarrow> plugin \<Rightarrow> (py_exn + unit) \<times> plugin" where
  "on_timeout env t st =
     (case t of
        UpdateNodeListTimer \<Rightarrow> update_node_list env st
      | UpdateNodesStateTimer \<Rightarrow> update_nodes_state env st)"

fun menu_exec :: "services \<Rightarrow> timer list \<Rightarrow> plugin \<Rightarrow> plugin" where
  "menu_exec env [] st = st"
| "menu_exec env (t # ts) st = menu_exec env ts (snd (on_timeout env t st))"

text \<open>The second half of \<^verbatim>\<open>_on_lc_node_menu\<close> ("Evaluate user action"), for the row
  read before the menu opened.\<close>

definition evaluate_user_action ::
  "services \<Rightarrow> NodeState \<Rightarrow> menu_action option \<Rightarrow> plugin \<Rightarrow> (py_exn + unit) \<times> plugin" where
  "evaluate_user_action env lc_node action st =
     (if state lc_node = ''active'' then
        (if action = Some Deactivate then call_transition env (name lc_node) ''deactivate'' st
         else if action = Some Shutdown then call_transition env (name lc_node) ''shutdown'' st
         else if action = Some DeactivateAndCleanup then
           call_transitions env (name lc_node) ''deactivate'' ''cleanup'' st
         else (Inr (), st))
      else if state lc_node = ''inactive'' then
        (if action = Some Activate then call_transition env (name lc_node) ''activate'' st
         else if action = Some Cleanup then call_transition env (name lc_node) ''cleanup'' st
         else if action = Some Shutdown then call_transition env (name lc_node) ''shutdown'' st
         else (Inr (), st))
      else if state lc_node = ''unconfigured'' then
        (if action = Some Configure then call_transition env (name lc_node) ''configure'' st
         else if action = Some Shutdown then call_transition env (name lc_node) ''shutdown'' st
         else if action = Some ConfigureAndActivate then
           call_transitions env (name lc_node) ''configure'' ''activate'' st
         else (Inr (), st))
      else (Inr (), st))"

definition on_lc_node_menu_exec ::
  "services \<Rightarrow> int \<Rightarrow> timer list \<Rightarrow> menu_action option \<Rightarrow> plugin
     \<Rightarrow> (py_exn + unit) \<times> plugin" where
  "on_lc_node_menu_exec env row_at ticks action st =
     (if row_at < 0 then (Inr (), st)
      else case py_index (lc_nodes st) row_at of
        Inl e \<Rightarrow> (Inl e, st)
      | Inr lc_node \<Rightarrow> evaluate_user_action env lc_node action (menu_exec env ticks st))"

subsection \<open>The table model\<close>

record QModelIndex =
  isValid :: bool
  index_row :: int
  index_column :: int

datatype item_role = DisplayRole | DecorationRole | FontRole | TextAlignmentRole | OtherRole nat

datatype alignment = AlignLeft | AlignRight | AlignCenter

datatype variant =
    PyNone
  | PyStr string
  | QIcon string
  | QFont bool
  | QtAlignment alignment

definition rowCount :: "LifecycleNodeTable \<Rightarrow> nat" where
  "rowCount m = length (table_data m)"

definition columnCount :: "LifecycleNodeTable \<Rightarrow> nat" where
  "columnCount m = 2"

text \<open>\<^verbatim>\<open>data\<close>. The display branch of the source returns for the columns 0 and 1
  and falls through to the later tests otherwise, which ask for another role; the font
  is a \<^verbatim>\<open>QFont\<close> with its bold flag set.\<close>

definition data :: "LifecycleNodeTable \<Rightarrow> QModelIndex \<Rightarrow> item_role \<Rightarrow> py_exn + variant" where
  "data m index role =
     (if \<not> isValid index then Inr PyNone
      else case py_index (table_data m) (index_row index) of
        Inl e \<Rightarrow> Inl e
      | Inr lc_node \<Rightarrow>
          if role = DisplayRole \<and> index_column index = 0 then Inr (PyStr (name lc_node))
          else if role = DisplayRole \<and> index_column index = 1 then
            Inr (PyStr (if state lc_node \<noteq> [] then state lc_node else ''not loaded''))
          else if role = DecorationRole \<and> index_column index = 0 then
            Inr (case map_of (table_icons m) (state lc_node) of
                   None \<Rightarrow> PyNone
                 | Some icon \<Rightarrow> QIcon icon)
          else if role = FontRole \<and> index_column index = 0 then Inr (QFont True)
          else if role = TextAlignmentRole \<and> index_column index = 1 then
            Inr (QtAlignment AlignCenter)
          else Inr PyNone)"

subsection \<open>What one pass over the node list computes\<close>

text \<open>The rows and the error lines one reply of the state service contributes, read off
  the reply over a list of keys; \<open>batch_rows\<close> and \<open>batch_errors\<close> take the sorted keys
  of the reply. \<open>replies\<close> lists the replies of one pass, each asked after the requests
  before it. The loops above are proved to compute these.\<close>

fun rows_of :: "(string \<times> state_result) list \<Rightarrow> string list \<Rightarrow> NodeState list" where
  "rows_of d [] = []"
| "rows_of d (k # ks) =
     (case map_of d k of
        Some (GotState l) \<Rightarrow> \<lparr>name = k, state = l\<rparr> # rows_of d ks
      | _ \<Rightarrow> rows_of d ks)"

fun errors_of :: "(string \<times> state_result) list \<Rightarrow> string list \<Rightarrow> string list" where
  "errors_of d [] = []"
| "errors_of d (k # ks) =
     (case map_of d k of
        Some (GotException e) \<Rightarrow> exception_line k e # errors_of d ks
      | _ \<Rightarrow> errors_of d ks)"

definition batch_rows :: "(string \<times> state_result) list \<Rightarrow> NodeState list" where
  "batch_rows d = rows_of d (sort (dict_keys d))"

definition batch_errors :: "(string \<times> state_result) list \<Rightarrow> string list" where
  "batch_errors d = errors_of d (sort (dict_keys d))"

fun replies :: "services \<Rightarrow> string list list \<Rightarrow> NodeName list \<Rightarrow> (string \<times> state_result) list list" where
  "replies env h [] = []"
| "replies env h (n # ns) =
     call_get_states env h [nn_name n] # replies env (h @ [[nn_name n]]) ns"

subsection \<open>Concrete inputs\<close>

text \<open>A directory that lists three nodes on its first poll and fails afterwards, a state
  service that knows the nodes \<open>a\<close> (active) and \<open>b\<close> (unconfigured) and answers with an
  exception for any other, a transition service that reports failure; and a plugin that
  has polled the directory once and shows \<open>a\<close>, \<open>b\<close> and \<open>c\<close> (inactive).\<close>

definition node_entry :: "string \<Rightarrow> NodeName" where
  "node_entry n = \<lparr>nn_name = n, nn_namespace = ''/'', nn_full_name = ''/'' @ n\<rparr>"

definition example_services :: services where
  "example_services =
     \<lparr>get_node_names =
        (\<lambda>k. if k = 0 then Inr [node_entry ''a'', node_entry ''b'', node_entry ''c'']
             else Inl (RuntimeError ''discovery failed'')),
      call_get_states =
        (\<lambda>h q. map (\<lambda>n. (n, if n = ''a'' then GotState ''active''
                             else if n = ''b'' then GotState ''unconfigured''
                             else GotException ''timeout'')) q),
      call_change_states = (\<lambda>h n l. [(n, ChangeFlag False)])\<rparr>"

definition example_plugin :: plugin where
  "example_plugin =
     (init ''/share'')
       \<lparr>lc_node_names := [node_entry ''a'', node_entry ''b'', node_entry ''c''],
        lc_nodes := [\<lparr>name = ''a'', state = ''active''\<rparr>, \<lparr>name = ''b'', state = ''unconfigured''\<rparr>,
                     \<lparr>name = ''c'', state = ''inactive''\<rparr>],
        list_calls := 1\<rparr>"

text \<open>The example services with a transition service whose reply holds no result, and
  with one whose result is the exception of the service call.\<close>

definition silent_services :: services where
  "silent_services = example_services\<lparr>call_change_states := (\<lambda>h n l. [])\<rparr>"

definition raising_services :: services where
  "raising_services =
     example_services\<lparr>call_change_states := (\<lambda>h n l. [(n, ChangeException ''timeout'')])\<rparr>"

text \<open>The example services with a state service that answers with an exception when
  exactly two queries were made before, and with the state inactive otherwise.\<close>

definition transient_services :: services where
  "transient_services =
     example_services
       \<lparr>call_get_states :=
          (\<lambda>h q. map (\<lambda>n. (n, if length h = 2 then GotException ''timeout''
                               else GotState ''inactive'')) q)\<rparr>"

text \<open>The example plugin at an earlier moment, when \<open>b\<close> was shown as inactive.\<close>

definition stale_plugin :: plugin where
  "stale_plugin =
     example_plugin
       \<lparr>lc_nodes := [\<lparr>name = ''a'', state = ''active''\<rparr>, \<lparr>name = ''b'', state = ''inactive''\<rparr>,
                     \<lparr>name = ''c'', state = ''inactive''\<rparr>]\<rparr>"

section \<open>Properties\<close>

subsection \<open>The loops of the state update\<close>

lemma errors_of_cong:
  "(\<And>k. k \<in> set ks \<Longrightarrow> map_of d k = map_of d' k) \<Longrightarrow> errors_of d ks = errors_of d' ks"
  by (induction ks) (auto split: option.splits state_result.splits)

lemma rows_of_cong:
  "(\<And>k. k \<in> set ks \<Longrightarrow> map_of d k = map_of d' k) \<Longrightarrow> rows_of d ks = rows_of d' ks"
  by (induction ks) (auto split: option.splits state_result.splits)

lemma fst_set_delete: "fst ` set (AList.delete k d) = fst ` set d - {k}"
  by (force simp: AList.delete_eq)

lemma output_exceptions_result:
  "distinct ks \<Longrightarrow> set ks \<subseteq> fst ` set d \<Longrightarrow>
   \<exists>d'. output_exceptions ks d st = (Inr d', st\<lparr>stderr := stderr st @ errors_of d ks\<rparr>) \<and>
        (\<forall>k. map_of d' k =
           (if k \<in> set ks then (case map_of d k of Some (GotState l) \<Rightarrow> Some (GotState l) | _ \<Rightarrow> None)
            else map_of d k))"
proof (induction ks arbitrary: d st)
  case Nil
  then show ?case by simp
next
  case (Cons k ks)
  from Cons.prems have k: "k \<in> fst ` set d" and d: "distinct ks" and nk: "k \<notin> set ks"
    and sub: "set ks \<subseteq> fst ` set d" by auto
  from k obtain v where v: "map_of d k = Some v"
    by (metis domD dom_map_of_conv_image_fst)
  show ?case
  proof (cases v)
    case (GotState l)
    from Cons.IH[OF d sub, of st] obtain d' where
      d': "output_exceptions ks d st = (Inr d', st\<lparr>stderr := stderr st @ errors_of d ks\<rparr>)"
      and m: "\<forall>k. map_of d' k = (if k \<in> set ks then (case map_of d k of Some (GotState l) \<Rightarrow> Some (GotState l) | _ \<Rightarrow> None) else map_of d k)"
      by blast
    show ?thesis using v GotState d' m by auto
  next
    case (GotException e)
    let ?d = "AList.delete k d"
    let ?st = "st\<lparr>stderr := stderr st @ [exception_line k e]\<rparr>"
    have sub': "set ks \<subseteq> fst ` set ?d" using sub nk by (auto simp: fst_set_delete)
    have same: "\<And>k'. k' \<noteq> k \<Longrightarrow> map_of ?d k' = map_of d k'"
      by simp
    have e: "errors_of ?d ks = errors_of d ks"
    proof (rule errors_of_cong)
      fix k' assume "k' \<in> set ks"
      then have "k' \<noteq> k" using nk by auto
      then show "map_of ?d k' = map_of d k'" by simp
    qed
    from Cons.IH[OF d sub', of ?st] obtain d' where
      d': "output_exceptions ks ?d ?st = (Inr d', ?st\<lparr>stderr := stderr ?st @ errors_of ?d ks\<rparr>)"
      and m: "\<forall>k'. map_of d' k' = (if k' \<in> set ks then (case map_of ?d k' of Some (GotState l) \<Rightarrow> Some (GotState l) | _ \<Rightarrow> None) else map_of ?d k')"
      by blast
    show ?thesis using v GotException d' m e nk same
      by (auto simp: AList.delete_conv')
  qed
qed

lemma output_states_result:
  "(\<And>k. k \<in> set ks \<Longrightarrow> \<exists>l. map_of d k = Some (GotState l)) \<Longrightarrow>
   output_states ks d st = (Inr (), st\<lparr>lc_nodes := lc_nodes st @ rows_of d ks\<rparr>)"
proof (induction ks arbitrary: st)
  case Nil
  then show ?case by simp
next
  case (Cons k ks)
  then obtain l where l: "map_of d k = Some (GotState l)" by auto
  have "output_states ks d (st\<lparr>lc_nodes := lc_nodes st @ [\<lparr>name = k, state = l\<rparr>]\<rparr>) =
        (Inr (), st\<lparr>lc_nodes := lc_nodes st @ [\<lparr>name = k, state = l\<rparr>]\<rparr>
                   \<lparr>lc_nodes := lc_nodes (st\<lparr>lc_nodes := lc_nodes st @ [\<lparr>name = k, state = l\<rparr>]\<rparr>) @ rows_of d ks\<rparr>)"
    using Cons.prems by (intro Cons.IH) auto
  then show ?case using l by simp
qed

lemma set_sort_keys: "set (sort (dict_keys d)) = fst ` set d"
  by (simp add: dict_keys_def)

lemma distinct_sort_keys: "distinct (sort (dict_keys d))"
  by (simp add: dict_keys_def)

lemma sorted_sort_keys: "sorted (sort (dict_keys d))"
  by simp

lemma sort_keys_unique:
  "(\<And>k. k \<in> fst ` set d' \<longleftrightarrow> k \<in> set ks) \<Longrightarrow> sorted ks \<Longrightarrow> distinct ks \<Longrightarrow> sort (dict_keys d') = ks"
  by (intro sorted_distinct_set_unique) (auto simp: dict_keys_def)


lemma rows_of_filter:
  "rows_of d (filter (\<lambda>k. \<exists>l. map_of d k = Some (GotState l)) ks) = rows_of d ks"
  by (induction ks) (auto split: option.splits state_result.splits)

lemma batch_result:
  "\<exists>d'. output_exceptions (sort (dict_keys d)) d st =
          (Inr d', st\<lparr>stderr := stderr st @ batch_errors d\<rparr>) \<and>
        (\<forall>st2. output_states (sort (dict_keys d')) d' st2 =
          (Inr (), st2\<lparr>lc_nodes := lc_nodes st2 @ batch_rows d\<rparr>))"
proof -
  let ?ks = "sort (dict_keys d)"
  let ?P = "\<lambda>k. \<exists>l. map_of d k = Some (GotState l)"
  have "distinct ?ks" "set ?ks \<subseteq> fst ` set d"
    by (simp_all only: distinct_sort_keys set_sort_keys subset_refl)
  from output_exceptions_result[OF this, of st] obtain d' where
    d': "output_exceptions ?ks d st = (Inr d', st\<lparr>stderr := stderr st @ errors_of d ?ks\<rparr>)"
    and m: "\<And>k. map_of d' k =
           (if k \<in> set ?ks then (case map_of d k of Some (GotState l) \<Rightarrow> Some (GotState l) | _ \<Rightarrow> None)
            else map_of d k)"
    by blast
  have m': "map_of d' k = (case map_of d k of Some (GotState l) \<Rightarrow> Some (GotState l) | _ \<Rightarrow> None)" for k
  proof (cases "k \<in> set ?ks")
    case True
    then show ?thesis using m by simp
  next
    case False
    then have "map_of d k = None"
      by (simp add: dict_keys_def map_of_eq_None_iff)
    then show ?thesis using m False by simp
  qed
  have keys: "sort (dict_keys d') = filter ?P ?ks"
  proof (rule sort_keys_unique)
    fix k
    have "k \<in> fst ` set d' \<longleftrightarrow> map_of d' k \<noteq> None"
      by (simp add: map_of_eq_None_iff)
    also have "\<dots> \<longleftrightarrow> ?P k"
      by (auto simp: m' split: option.splits state_result.splits)
    also have "\<dots> \<longleftrightarrow> k \<in> set (filter ?P ?ks)"
      by (auto simp: dict_keys_def dest: map_of_SomeD intro: rev_image_eqI)
    finally show "k \<in> fst ` set d' \<longleftrightarrow> k \<in> set (filter ?P ?ks)" .
  next
    show "sorted (filter ?P ?ks)" using sorted_filter[of "\<lambda>x. x" ?ks ?P] by simp
    show "distinct (filter ?P ?ks)" by (simp add: dict_keys_def)
  qed
  have rows: "rows_of d' (filter ?P ?ks) = batch_rows d"
  proof -
    have "rows_of d' (filter ?P ?ks) = rows_of d (filter ?P ?ks)"
      by (rule rows_of_cong) (auto simp: m')
    then show ?thesis by (simp add: rows_of_filter batch_rows_def)
  qed
  have "output_states (sort (dict_keys d')) d' st2 =
          (Inr (), st2\<lparr>lc_nodes := lc_nodes st2 @ batch_rows d\<rparr>)" for st2
    unfolding keys rows[symmetric]
    by (rule output_states_result) (auto simp: m')
  with d' show ?thesis by (auto simp: batch_errors_def)
qed

lemma query_nodes_result:
  "query_nodes env ns st =
     (Inr (), st\<lparr>lc_nodes := lc_nodes st @ concat (map batch_rows (replies env (state_calls st) ns)),
                 stderr := stderr st @ concat (map batch_errors (replies env (state_calls st) ns)),
                 state_calls := state_calls st @ map (\<lambda>n. [nn_name n]) ns\<rparr>)"
proof (induction ns arbitrary: st)
  case Nil
  then show ?case by simp
next
  case (Cons n ns)
  let ?d = "call_get_states env (state_calls st) [nn_name n]"
  let ?st1 = "st\<lparr>state_calls := state_calls st @ [[nn_name n]]\<rparr>"
  from batch_result[of ?d ?st1] obtain d' where
    a: "output_exceptions (sort (dict_keys ?d)) ?d ?st1 =
          (Inr d', ?st1\<lparr>stderr := stderr ?st1 @ batch_errors ?d\<rparr>)"
    and b: "\<And>st2. output_states (sort (dict_keys d')) d' st2 =
          (Inr (), st2\<lparr>lc_nodes := lc_nodes st2 @ batch_rows ?d\<rparr>)"
    by blast
  show ?case
    by (simp add: Let_def a b Cons.IH)
qed

lemma update_nodes_state_result:
  "update_nodes_state env st =
     (Inr (), st\<lparr>lc_nodes := concat (map batch_rows (replies env (state_calls st) (lc_node_names st))),
                 table_model := Some \<lparr>table_data =
                     concat (map batch_rows (replies env (state_calls st) (lc_node_names st))),
                   table_icons = icons st\<rparr>,
                 stderr := stderr st @ concat (map batch_errors (replies env (state_calls st) (lc_node_names st))),
                 state_calls := state_calls st @ map (\<lambda>n. [nn_name n]) (lc_node_names st)\<rparr>)"
  by (simp add: update_nodes_state_def query_nodes_result show_lc_nodes_def)

lemma rows_of_member:
  "r \<in> set (rows_of d ks) \<longleftrightarrow> name r \<in> set ks \<and> map_of d (name r) = Some (GotState (state r))"
  by (induction ks) (auto split: option.splits state_result.splits)

lemma map_name_rows_of:
  "map name (rows_of d ks) = filter (\<lambda>k. \<exists>l. map_of d k = Some (GotState l)) ks"
  by (induction ks) (auto split: option.splits state_result.splits)

lemma errors_of_member:
  "k \<in> set ks \<Longrightarrow> map_of d k = Some (GotException e) \<Longrightarrow>
   exception_line k e \<in> set (errors_of d ks)"
  by (induction ks) (auto split: option.splits state_result.splits)

lemma batch_rows_member:
  "r \<in> set (batch_rows d) \<longleftrightarrow> map_of d (name r) = Some (GotState (state r))"
  by (auto simp: batch_rows_def rows_of_member dict_keys_def dest: map_of_SomeD intro: rev_image_eqI)

lemma batch_rows_sorted: "sorted (map name (batch_rows d)) \<and> distinct (map name (batch_rows d))"
  using sorted_filter[of "\<lambda>x. x" "sort (dict_keys d)"]
  by (simp add: batch_rows_def map_name_rows_of dict_keys_def)

lemma batch_errors_member:
  "map_of d k = Some (GotException e) \<Longrightarrow> exception_line k e \<in> set (batch_errors d)"
  unfolding batch_errors_def
  by (rule errors_of_member) (auto simp: dict_keys_def dest: map_of_SomeD intro: rev_image_eqI)

lemma length_replies: "length (replies env h ns) = length ns"
  by (induction ns arbitrary: h) auto

lemma replies_member:
  "d \<in> set (replies env h ns) \<Longrightarrow> \<exists>h' n. n \<in> set ns \<and> d = call_get_states env h' [nn_name n]"
proof (induction ns arbitrary: h)
  case Nil
  then show ?case by simp
next
  case (Cons a ns)
  from Cons.prems have
    "d = call_get_states env h [nn_name a] \<or> d \<in> set (replies env (h @ [[nn_name a]]) ns)"
    by simp
  then show ?case
  proof
    assume "d = call_get_states env h [nn_name a]"
    then show ?thesis by (intro exI[of _ h] exI[of _ a]) simp
  next
    assume "d \<in> set (replies env (h @ [[nn_name a]]) ns)"
    from Cons.IH[OF this] obtain h' n where
      "n \<in> set ns" "d = call_get_states env h' [nn_name n]" by blast
    then show ?thesis by (intro exI[of _ h'] exI[of _ n]) simp
  qed
qed

lemma replies_has:
  "n \<in> set ns \<Longrightarrow> \<exists>h'. call_get_states env h' [nn_name n] \<in> set (replies env h ns)"
  by (induction ns arbitrary: h) auto

lemma lc_nodes_update_nodes_state:
  "lc_nodes (snd (update_nodes_state env st)) =
     concat (map batch_rows (replies env (state_calls st) (lc_node_names st)))"
  by (simp add: update_nodes_state_result)

lemma stderr_update_nodes_state:
  "stderr (snd (update_nodes_state env st)) =
     stderr st @ concat (map batch_errors (replies env (state_calls st) (lc_node_names st)))"
  by (simp add: update_nodes_state_result)

lemma update_nodes_state_row_source:
  assumes "row \<in> set (lc_nodes (snd (update_nodes_state env st)))"
  shows "\<exists>h n. n \<in> set (lc_node_names st) \<and>
       map_of (call_get_states env h [nn_name n]) (name row) = Some (GotState (state row))"
proof -
  from assms obtain d where
    d: "d \<in> set (replies env (state_calls st) (lc_node_names st))" and row: "row \<in> set (batch_rows d)"
    by (auto simp: lc_nodes_update_nodes_state)
  from replies_member[OF d] obtain h n where
    "n \<in> set (lc_node_names st)" "d = call_get_states env h [nn_name n]" by blast
  with row show ?thesis by (auto simp: batch_rows_member)
qed

lemma errors_of_lines:
  "errors_of d ks =
     concat (map (\<lambda>k. case map_of d k of
         Some (GotException e) \<Rightarrow>
           [''Exception while calling service of node '' @ [CHR 0x27] @ k @ [CHR 0x27] @ '': '' @ e]
       | _ \<Rightarrow> []) ks)"
  by (induction ks) (auto simp: exception_line_def split: option.splits state_result.splits)

subsection \<open>The rows of the table\<close>

text \<open>
  Claim C10. A state update never raises and hands the table model exactly the rows it
  built. The rows are the batches of the replies of the state service, one reply for each
  entry of the node list, in the order of the list. The batch of a reply has a row for
  exactly the names whose result in the reply is a state, with the label of that state,
  in ascending order of the names, each once: a name whose result is an exception has no
  row. So every row carries the label of a state that the state service returned for the
  row's name. The exceptions are printed to standard error: reply by reply, and for each
  reply in ascending order of the names, one line with the name and the exception for
  every name whose result is an exception, and nothing else.
\<close>

theorem update_nodes_state_rows:
  assumes "update_nodes_state env st = (r, st')"
  shows "r = Inr () \<and>
    table_model st' = Some \<lparr>table_data = lc_nodes st', table_icons = icons st\<rparr> \<and>
    lc_nodes st' = concat (map batch_rows (replies env (state_calls st) (lc_node_names st))) \<and>
    length (replies env (state_calls st) (lc_node_names st)) = length (lc_node_names st) \<and>
    (\<forall>d \<in> set (replies env (state_calls st) (lc_node_names st)).
       (\<exists>h n. n \<in> set (lc_node_names st) \<and> d = call_get_states env h [nn_name n]) \<and>
       sorted (map name (batch_rows d)) \<and> distinct (map name (batch_rows d)) \<and>
       (\<forall>row. row \<in> set (batch_rows d) \<longleftrightarrow>
          map_of d (name row) = Some (GotState (state row)))) \<and>
    (\<forall>row \<in> set (lc_nodes st'). \<exists>h n. n \<in> set (lc_node_names st) \<and>
       map_of (call_get_states env h [nn_name n]) (name row) = Some (GotState (state row))) \<and>
    stderr st' = stderr st @
      concat (map (\<lambda>d. concat (map (\<lambda>k. case map_of d k of
            Some (GotException e) \<Rightarrow>
              [''Exception while calling service of node '' @ [CHR 0x27] @ k @ [CHR 0x27]
                 @ '': '' @ e]
          | _ \<Rightarrow> []) (sort (dict_keys d))))
        (replies env (state_calls st) (lc_node_names st)))"
proof -
  let ?ds = "replies env (state_calls st) (lc_node_names st)"
  from assms have r: "r = Inr ()" and st': "st' = snd (update_nodes_state env st)"
    by (simp_all add: update_nodes_state_result)
  have rows: "lc_nodes st' = concat (map batch_rows ?ds)"
    by (simp add: st' lc_nodes_update_nodes_state)
  have tm: "table_model st' = Some \<lparr>table_data = lc_nodes st', table_icons = icons st\<rparr>"
    by (simp add: st' update_nodes_state_result)
  have len: "length ?ds = length (lc_node_names st)"
    by (rule length_replies)
  have batch: "(\<exists>h n. n \<in> set (lc_node_names st) \<and> d = call_get_states env h [nn_name n]) \<and>
       sorted (map name (batch_rows d)) \<and> distinct (map name (batch_rows d)) \<and>
       (\<forall>row. row \<in> set (batch_rows d) \<longleftrightarrow>
          map_of d (name row) = Some (GotState (state row)))"
    if "d \<in> set ?ds" for d
    using replies_member[OF that] batch_rows_sorted[of d] batch_rows_member[of _ d]
    by blast
  have src: "\<exists>h n. n \<in> set (lc_node_names st) \<and>
       map_of (call_get_states env h [nn_name n]) (name row) = Some (GotState (state row))"
    if "row \<in> set (lc_nodes st')" for row
    using that unfolding st' by (rule update_nodes_state_row_source)
  have lines: "stderr st' = stderr st @
      concat (map (\<lambda>d. concat (map (\<lambda>k. case map_of d k of
            Some (GotException e) \<Rightarrow>
              [''Exception while calling service of node '' @ [CHR 0x27] @ k @ [CHR 0x27]
                 @ '': '' @ e]
          | _ \<Rightarrow> []) (sort (dict_keys d)))) ?ds)"
    unfolding st' stderr_update_nodes_state batch_errors_def errors_of_lines ..
  from r tm rows len batch src lines show ?thesis by blast
qed

text \<open>The theorem at the example plugin with the node list \<open>c\<close>, \<open>a\<close>: the query for \<open>c\<close>
  times out, which is printed, and \<open>a\<close> has its row.\<close>

theorem update_nodes_state_rows_witness:
  "fst (update_nodes_state example_services
     (example_plugin\<lparr>lc_node_names := [node_entry ''c'', node_entry ''a'']\<rparr>)) = Inr () \<and>
   lc_nodes (snd (update_nodes_state example_services
        (example_plugin\<lparr>lc_node_names := [node_entry ''c'', node_entry ''a'']\<rparr>))) =
     [\<lparr>name = ''a'', state = ''active''\<rparr>] \<and>
   (\<exists>h n. n \<in> set [node_entry ''c'', node_entry ''a''] \<and>
      map_of (call_get_states example_services h [nn_name n]) ''a'' = Some (GotState ''active'')) \<and>
   stderr (snd (update_nodes_state example_services
        (example_plugin\<lparr>lc_node_names := [node_entry ''c'', node_entry ''a'']\<rparr>))) =
     [''Exception while calling service of node '' @ [CHR 0x27] @ ''c'' @ [CHR 0x27] @ '': timeout'']"
proof -
  let ?st = "example_plugin\<lparr>lc_node_names := [node_entry ''c'', node_entry ''a'']\<rparr>"
  let ?r = "fst (update_nodes_state example_services ?st)"
  let ?st' = "snd (update_nodes_state example_services ?st)"
  have run: "update_nodes_state example_services ?st = (?r, ?st')"
    by simp
  have rows: "lc_nodes ?st' = [\<lparr>name = ''a'', state = ''active''\<rparr>]"
    by (simp add: update_nodes_state_def example_services_def example_plugin_def init_def
        node_entry_def dict_keys_def show_lc_nodes_def Let_def)
  note inst = update_nodes_state_rows[OF run]
  from inst have ok: "?r = Inr ()"
    and src: "\<forall>row \<in> set (lc_nodes ?st'). \<exists>h n. n \<in> set (lc_node_names ?st) \<and>
       map_of (call_get_states example_services h [nn_name n]) (name row) = Some (GotState (state row))"
    by blast+
  from inst have "stderr ?st' = stderr ?st @
      concat (map (\<lambda>d. concat (map (\<lambda>k. case map_of d k of
            Some (GotException e) \<Rightarrow>
              [''Exception while calling service of node '' @ [CHR 0x27] @ k @ [CHR 0x27]
                 @ '': '' @ e]
          | _ \<Rightarrow> []) (sort (dict_keys d))))
        (replies example_services (state_calls ?st) (lc_node_names ?st)))"
    by blast
  then have lines: "stderr ?st' =
     [''Exception while calling service of node '' @ [CHR 0x27] @ ''c'' @ [CHR 0x27] @ '': timeout'']"
    by (simp add: example_services_def example_plugin_def init_def node_entry_def dict_keys_def)
  from src have "\<exists>h n. n \<in> set (lc_node_names ?st) \<and>
       map_of (call_get_states example_services h [nn_name n]) ''a'' = Some (GotState ''active'')"
    unfolding rows by simp
  then have "\<exists>h n. n \<in> set [node_entry ''c'', node_entry ''a''] \<and>
      map_of (call_get_states example_services h [nn_name n]) ''a'' = Some (GotState ''active'')"
    by simp
  with ok rows lines show ?thesis by blast
qed

lemma replies_nth:
  "i < length ns \<Longrightarrow>
   replies env h ns ! i =
     call_get_states env (h @ map (\<lambda>n. [nn_name n]) (take i ns)) [nn_name (ns ! i)]"
proof (induction ns arbitrary: h i)
  case Nil
  then show ?case by simp
next
  case (Cons n ns)
  show ?case
  proof (cases i)
    case 0
    then show ?thesis by simp
  next
    case (Suc j)
    with Cons.prems have "j < length ns" by simp
    from Cons.IH[OF this, of "h @ [[nn_name n]]"] Suc show ?thesis by simp
  qed
qed

lemma update_nodes_state_row_iff:
  "\<lparr>name = N, state = l\<rparr> \<in> set (lc_nodes (snd (update_nodes_state env st))) \<longleftrightarrow>
     (\<exists>d \<in> set (replies env (state_calls st) (lc_node_names st)). map_of d N = Some (GotState l))"
  by (simp add: lc_nodes_update_nodes_state batch_rows_member)

lemma update_nodes_state_name_iff:
  "N \<in> name ` set (lc_nodes (snd (update_nodes_state env st))) \<longleftrightarrow>
     (\<exists>d \<in> set (replies env (state_calls st) (lc_node_names st)).
        \<exists>l. map_of d N = Some (GotState l))"
proof
  assume "N \<in> name ` set (lc_nodes (snd (update_nodes_state env st)))"
  then obtain row where "row \<in> set (lc_nodes (snd (update_nodes_state env st)))" "name row = N"
    by auto
  then obtain d where "d \<in> set (replies env (state_calls st) (lc_node_names st))"
    "map_of d N = Some (GotState (state row))"
    by (auto simp: lc_nodes_update_nodes_state batch_rows_member)
  then show "\<exists>d \<in> set (replies env (state_calls st) (lc_node_names st)).
        \<exists>l. map_of d N = Some (GotState l)" by blast
next
  assume "\<exists>d \<in> set (replies env (state_calls st) (lc_node_names st)).
        \<exists>l. map_of d N = Some (GotState l)"
  then obtain d l where "d \<in> set (replies env (state_calls st) (lc_node_names st))"
    "map_of d N = Some (GotState l)" by blast
  then have "\<lparr>name = N, state = l\<rparr> \<in> set (lc_nodes (snd (update_nodes_state env st)))"
    unfolding update_nodes_state_row_iff by blast
  then have "name \<lparr>name = N, state = l\<rparr> \<in> name ` set (lc_nodes (snd (update_nodes_state env st)))"
    by (rule imageI)
  then show "N \<in> name ` set (lc_nodes (snd (update_nodes_state env st)))" by simp
qed

lemma update_nodes_state_line:
  assumes "d \<in> set (replies env (state_calls st) (lc_node_names st))"
    and "map_of d N = Some (GotException e)"
  shows "''Exception while calling service of node '' @ [CHR 0x27] @ N @ [CHR 0x27] @ '': '' @ e
     \<in> set (stderr (snd (update_nodes_state env st)))"
proof -
  from assms(2) have "exception_line N e \<in> set (batch_errors d)"
    by (rule batch_errors_member)
  with assms(1) have "exception_line N e \<in> set (stderr (snd (update_nodes_state env st)))"
    unfolding stderr_update_nodes_state by auto
  then show ?thesis by (simp add: exception_line_def)
qed

subsection \<open>A state query that fails\<close>

text \<open>
  Claim C4, as amended. Take one state update, with the replies the state service gives
  in it: the reply at position \<open>i\<close> answers the query for the name of entry \<open>i\<close> of the
  node list, asked after the queries for the entries before it. Let no reply of this
  update hold a state for the name \<open>N\<close> (the query for \<open>N\<close> returned an exception, in this
  update, and no other reply mentions \<open>N\<close>). Then the update does not raise, and the
  table model it sets holds the rows it built, among which there is none for \<open>N\<close>: \<open>N\<close> is
  dropped from the table, and its earlier state is not kept. Every exception a reply
  holds for \<open>N\<close> is printed to standard error. The other names are not affected: a row
  with a name and a state is in the table exactly when a reply of this update holds that
  state for that name.
\<close>

theorem update_nodes_state_failed_query:
  assumes "update_nodes_state env st = (r, st')"
    and "\<forall>d \<in> set (replies env (state_calls st) (lc_node_names st)).
           \<forall>l. map_of d N \<noteq> Some (GotState l)"
  shows "r = Inr () \<and>
    table_model st' = Some \<lparr>table_data = lc_nodes st', table_icons = icons st\<rparr> \<and>
    N \<notin> name ` set (lc_nodes st') \<and>
    (\<forall>d \<in> set (replies env (state_calls st) (lc_node_names st)).
       \<forall>e. map_of d N = Some (GotException e) \<longrightarrow>
         ''Exception while calling service of node '' @ [CHR 0x27] @ N @ [CHR 0x27] @ '': '' @ e
           \<in> set (stderr st')) \<and>
    (\<forall>M l. \<lparr>name = M, state = l\<rparr> \<in> set (lc_nodes st') \<longleftrightarrow>
       (\<exists>d \<in> set (replies env (state_calls st) (lc_node_names st)).
          map_of d M = Some (GotState l))) \<and>
    length (replies env (state_calls st) (lc_node_names st)) = length (lc_node_names st) \<and>
    (\<forall>i < length (lc_node_names st).
       replies env (state_calls st) (lc_node_names st) ! i =
         call_get_states env
           (state_calls st @ map (\<lambda>n. [nn_name n]) (take i (lc_node_names st)))
           [nn_name (lc_node_names st ! i)])"
proof -
  from assms(1) have r: "r = Inr ()" and st': "st' = snd (update_nodes_state env st)"
    by (simp_all add: update_nodes_state_result)
  have tm: "table_model st' = Some \<lparr>table_data = lc_nodes st', table_icons = icons st\<rparr>"
    by (simp add: st' update_nodes_state_result)
  have gone: "N \<notin> name ` set (lc_nodes st')"
    unfolding st' update_nodes_state_name_iff using assms(2) by blast
  have line: "''Exception while calling service of node '' @ [CHR 0x27] @ N @ [CHR 0x27] @ '': '' @ e
      \<in> set (stderr st')"
    if "d \<in> set (replies env (state_calls st) (lc_node_names st))"
      and "map_of d N = Some (GotException e)" for d e
    unfolding st' using that by (rule update_nodes_state_line)
  have others: "\<lparr>name = M, state = l\<rparr> \<in> set (lc_nodes st') \<longleftrightarrow>
       (\<exists>d \<in> set (replies env (state_calls st) (lc_node_names st)).
          map_of d M = Some (GotState l))" for M l
    unfolding st' by (rule update_nodes_state_row_iff)
  have len: "length (replies env (state_calls st) (lc_node_names st)) = length (lc_node_names st)"
    by (rule length_replies)
  have nth: "replies env (state_calls st) (lc_node_names st) ! i =
         call_get_states env
           (state_calls st @ map (\<lambda>n. [nn_name n]) (take i (lc_node_names st)))
           [nn_name (lc_node_names st ! i)]"
    if "i < length (lc_node_names st)" for i
    using that by (rule replies_nth)
  from r tm gone line others len nth show ?thesis by blast
qed

text \<open>The theorem at the example plugin, with the state service that fails for the third
  query only: it would return a state for \<open>c\<close> at any other moment.\<close>

theorem update_nodes_state_failed_query_witness:
  "map_of (call_get_states transient_services [] [''c'']) ''c'' = Some (GotState ''inactive'') \<and>
   replies transient_services (state_calls example_plugin) (lc_node_names example_plugin) =
     [[(''a'', GotState ''inactive'')], [(''b'', GotState ''inactive'')],
      [(''c'', GotException ''timeout'')]] \<and>
   fst (update_nodes_state transient_services example_plugin) = Inr () \<and>
   ''c'' \<notin> name ` set (lc_nodes (snd (update_nodes_state transient_services example_plugin))) \<and>
   table_model (snd (update_nodes_state transient_services example_plugin)) =
     Some \<lparr>table_data = lc_nodes (snd (update_nodes_state transient_services example_plugin)),
           table_icons = state_icons ''/share''\<rparr> \<and>
   ''Exception while calling service of node '' @ [CHR 0x27] @ ''c'' @ [CHR 0x27] @ '': timeout''
     \<in> set (stderr (snd (update_nodes_state transient_services example_plugin))) \<and>
   \<lparr>name = ''a'', state = ''inactive''\<rparr>
     \<in> set (lc_nodes (snd (update_nodes_state transient_services example_plugin)))"
proof -
  let ?r = "fst (update_nodes_state transient_services example_plugin)"
  let ?st' = "snd (update_nodes_state transient_services example_plugin)"
  let ?ds = "replies transient_services (state_calls example_plugin) (lc_node_names example_plugin)"
  have other: "map_of (call_get_states transient_services [] [''c'']) ''c'' = Some (GotState ''inactive'')"
    by (simp add: transient_services_def)
  have reps: "?ds = [[(''a'', GotState ''inactive'')], [(''b'', GotState ''inactive'')],
      [(''c'', GotException ''timeout'')]]"
    by (simp add: transient_services_def example_plugin_def init_def node_entry_def)
  have run: "update_nodes_state transient_services example_plugin = (?r, ?st')"
    by simp
  have no_state: "\<forall>d \<in> set ?ds. \<forall>l. map_of d ''c'' \<noteq> Some (GotState l)"
    unfolding reps by simp
  have icons: "icons example_plugin = state_icons ''/share''"
    by (simp add: example_plugin_def init_def)
  note inst = update_nodes_state_failed_query[OF run no_state]
  from inst have ok: "?r = Inr ()" and gone: "''c'' \<notin> name ` set (lc_nodes ?st')"
    and tm: "table_model ?st' = Some \<lparr>table_data = lc_nodes ?st', table_icons = icons example_plugin\<rparr>"
    by blast+
  from inst have "\<forall>d \<in> set ?ds. \<forall>e. map_of d ''c'' = Some (GotException e) \<longrightarrow>
         ''Exception while calling service of node '' @ [CHR 0x27] @ ''c'' @ [CHR 0x27] @ '': '' @ e
           \<in> set (stderr ?st')"
    by blast
  then have line: "''Exception while calling service of node '' @ [CHR 0x27] @ ''c'' @ [CHR 0x27]
      @ '': timeout'' \<in> set (stderr ?st')"
    unfolding reps by simp
  from inst have "\<lparr>name = ''a'', state = ''inactive''\<rparr> \<in> set (lc_nodes ?st') \<longleftrightarrow>
       (\<exists>d \<in> set ?ds. map_of d ''a'' = Some (GotState ''inactive''))"
    by blast
  then have a: "\<lparr>name = ''a'', state = ''inactive''\<rparr> \<in> set (lc_nodes ?st')"
    unfolding reps by simp
  from other reps ok gone tm line a show ?thesis
    unfolding icons by blast
qed

text \<open>The claim as stated fails: \<open>c\<close> was shown as inactive, its query returns an
  exception, and afterwards the table has the rows of \<open>a\<close> and \<open>b\<close> only.\<close>

theorem update_nodes_state_failed_query_counterexample:
  "\<lparr>name = ''c'', state = ''inactive''\<rparr> \<in> set (lc_nodes example_plugin) \<and>
   node_entry ''c'' \<in> set (lc_node_names example_plugin) \<and>
   map_of (call_get_states example_services (state_calls example_plugin @ [[''a''], [''b'']]) [''c'']) ''c''
     = Some (GotException ''timeout'') \<and>
   lc_nodes (snd (update_nodes_state example_services example_plugin)) =
     [\<lparr>name = ''a'', state = ''active''\<rparr>, \<lparr>name = ''b'', state = ''unconfigured''\<rparr>]"
  by (simp add: update_nodes_state_def example_services_def example_plugin_def init_def
        node_entry_def dict_keys_def show_lc_nodes_def Let_def)


subsection \<open>Directory polls\<close>

lemma update_node_list_poll:
  assumes "get_node_names env (list_calls st) = Inr ns"
  shows "update_node_list env st =
     (if lc_node_names st \<noteq> ns
      then update_nodes_state env (st\<lparr>list_calls := Suc (list_calls st), lc_node_names := ns\<rparr>)
      else (Inr (), st\<lparr>list_calls := Suc (list_calls st)\<rparr>))"
  using assms by (simp add: update_node_list_def list_lc_nodes_def Let_def)

lemma update_node_list_runtime_error:
  assumes "get_node_names env (list_calls st) = Inl (RuntimeError e)"
  shows "update_node_list env st =
     (if lc_node_names st \<noteq> []
      then update_nodes_state env
             (st\<lparr>list_calls := Suc (list_calls st), stdout := stdout st @ [e], lc_node_names := []\<rparr>)
      else (Inr (), st\<lparr>list_calls := Suc (list_calls st), stdout := stdout st @ [e]\<rparr>))"
  using assms by (simp add: update_node_list_def list_lc_nodes_def Let_def)

lemma distinct_within_one:
  "distinct xs \<Longrightarrow> set xs \<subseteq> {k} \<Longrightarrow> xs = [] \<or> xs = [k]"
proof (cases xs)
  case Nil
  then show ?thesis by simp
next
  case (Cons x ys)
  assume d: "distinct xs" and s: "set xs \<subseteq> {k}"
  from s Cons have x: "x = k" and "set ys \<subseteq> {k}" by auto
  moreover from d Cons x have "k \<notin> set ys" by simp
  ultimately have "ys = []" by (cases ys) auto
  with Cons x show ?thesis by simp
qed

lemma batch_rows_own:
  assumes "fst ` set d \<subseteq> {k}"
  shows "batch_rows d =
     (case map_of d k of Some (GotState l) \<Rightarrow> [\<lparr>name = k, state = l\<rparr>] | _ \<Rightarrow> [])"
proof -
  have "distinct (sort (dict_keys d))" "set (sort (dict_keys d)) \<subseteq> {k}"
    using assms by (simp_all add: dict_keys_def)
  from distinct_within_one[OF this] show ?thesis
  proof
    assume e: "sort (dict_keys d) = []"
    then have "set (sort (dict_keys d)) = {}" by simp
    then have "fst ` set d = {}" by (simp add: dict_keys_def)
    then have "map_of d k = None" by (simp add: map_of_eq_None_iff)
    with e show ?thesis by (simp add: batch_rows_def)
  next
    assume "sort (dict_keys d) = [k]"
    then show ?thesis
      by (simp add: batch_rows_def split: option.splits state_result.splits)
  qed
qed

lemma batches_own:
  assumes "\<forall>(n, d) \<in> set (zip ns ds). fst ` set d \<subseteq> {nn_name n}"
    and "length ds = length ns"
  shows "concat (map batch_rows ds) =
     concat (map (\<lambda>(n, d). case map_of d (nn_name n) of
                     Some (GotState l) \<Rightarrow> [\<lparr>name = nn_name n, state = l\<rparr>]
                   | _ \<Rightarrow> []) (zip ns ds))"
proof -
  have "map batch_rows ds = map batch_rows (map snd (zip ns ds))"
    using assms(2) by simp
  also have "\<dots> = map (\<lambda>(n, d). batch_rows d) (zip ns ds)"
    by (simp add: case_prod_unfold)
  also have "\<dots> = map (\<lambda>(n, d). case map_of d (nn_name n) of
                     Some (GotState l) \<Rightarrow> [\<lparr>name = nn_name n, state = l\<rparr>]
                   | _ \<Rightarrow> []) (zip ns ds)"
    using assms(1) by (intro map_cong refl) (auto simp: batch_rows_own)
  finally show ?thesis by simp
qed

text \<open>
  Claim C5, as amended. Let a directory poll return the list \<open>ns\<close>. The poll does not
  raise. When \<open>ns\<close> is the list the plugin holds, nothing but the poll counter changes:
  the table stays as it is. Otherwise the plugin holds \<open>ns\<close> afterwards, one state query
  is made for each entry of \<open>ns\<close>, and the table model is set to the rows built from the
  replies of this poll. When each of these replies holds results for the requested name
  only, the rows are, in the order of \<open>ns\<close>, one row for every entry whose reply holds a
  state for it, with that state, and no row for an entry whose reply holds an exception
  or nothing: the table has names of \<open>ns\<close> only, but not every name of \<open>ns\<close>.
\<close>

theorem update_node_list_membership:
  assumes "get_node_names env (list_calls st) = Inr ns"
    and "update_node_list env st = (r, st')"
    and "\<forall>(n, d) \<in> set (zip ns (replies env (state_calls st) ns)). fst ` set d \<subseteq> {nn_name n}"
  shows "r = Inr () \<and>
    (ns = lc_node_names st \<longrightarrow> st' = st\<lparr>list_calls := Suc (list_calls st)\<rparr>) \<and>
    (ns \<noteq> lc_node_names st \<longrightarrow>
       lc_node_names st' = ns \<and>
       table_model st' = Some \<lparr>table_data = lc_nodes st', table_icons = icons st\<rparr> \<and>
       lc_nodes st' =
         concat (map (\<lambda>(n, d). case map_of d (nn_name n) of
                         Some (GotState l) \<Rightarrow> [\<lparr>name = nn_name n, state = l\<rparr>]
                       | _ \<Rightarrow> [])
                   (zip ns (replies env (state_calls st) ns))) \<and>
       name ` set (lc_nodes st') \<subseteq> nn_name ` set ns) \<and>
    length (replies env (state_calls st) ns) = length ns \<and>
    (\<forall>i < length ns.
       replies env (state_calls st) ns ! i =
         call_get_states env (state_calls st @ map (\<lambda>n. [nn_name n]) (take i ns))
           [nn_name (ns ! i)])"
proof -
  let ?ds = "replies env (state_calls st) ns"
  let ?row = "\<lambda>(n, d). case map_of d (nn_name n) of
                  Some (GotState l) \<Rightarrow> [\<lparr>name = nn_name n, state = l\<rparr>]
                | _ \<Rightarrow> []"
  have len: "length ?ds = length ns" by (rule length_replies)
  have nth: "\<forall>i < length ns. ?ds ! i =
      call_get_states env (state_calls st @ map (\<lambda>n. [nn_name n]) (take i ns)) [nn_name (ns ! i)]"
    by (simp add: replies_nth)
  show ?thesis
  proof (cases "ns = lc_node_names st")
    case True
    with assms(2) have "r = Inr ()" "st' = st\<lparr>list_calls := Suc (list_calls st)\<rparr>"
      by (simp_all add: update_node_list_poll[OF assms(1)])
    with True len nth show ?thesis by blast
  next
    case False
    let ?st1 = "st\<lparr>list_calls := Suc (list_calls st), lc_node_names := ns\<rparr>"
    from False assms(2) have run: "update_nodes_state env ?st1 = (r, st')"
      by (auto simp: update_node_list_poll[OF assms(1)])
    then have r: "r = Inr ()" and st': "st' = snd (update_nodes_state env ?st1)"
      by (simp_all add: update_nodes_state_result)
    have kept: "lc_node_names st' = ns"
      and tm: "table_model st' = Some \<lparr>table_data = lc_nodes st', table_icons = icons st\<rparr>"
      by (simp_all add: st' update_nodes_state_result)
    have "lc_nodes st' = concat (map batch_rows ?ds)"
      by (simp add: st' lc_nodes_update_nodes_state)
    also have "\<dots> = concat (map ?row (zip ns ?ds))"
      using assms(3) len by (rule batches_own)
    finally have rows: "lc_nodes st' = concat (map ?row (zip ns ?ds))" .
    have sub: "name ` set (lc_nodes st') \<subseteq> nn_name ` set ns"
    proof
      fix N assume "N \<in> name ` set (lc_nodes st')"
      then obtain row where "row \<in> set (lc_nodes st')" and N: "name row = N" by auto
      then obtain n d where nd: "(n, d) \<in> set (zip ns ?ds)" and "row \<in> set (?row (n, d))"
        unfolding rows by auto
      then have "name row = nn_name n"
        by (auto split: option.splits state_result.splits)
      moreover from nd have "n \<in> set ns" by (rule set_zip_leftD)
      ultimately show "N \<in> nn_name ` set ns" using N by auto
    qed
    from False r kept tm rows sub len nth show ?thesis by blast
  qed
qed

text \<open>The theorem at the first poll of the example directory, from the initial plugin.\<close>

theorem update_node_list_membership_witness:
  "get_node_names example_services (list_calls (init ''/share'')) =
     Inr [node_entry ''a'', node_entry ''b'', node_entry ''c''] \<and>
   replies example_services (state_calls (init ''/share''))
       [node_entry ''a'', node_entry ''b'', node_entry ''c''] =
     [[(''a'', GotState ''active'')], [(''b'', GotState ''unconfigured'')],
      [(''c'', GotException ''timeout'')]] \<and>
   fst (update_node_list example_services (init ''/share'')) = Inr () \<and>
   lc_node_names (snd (update_node_list example_services (init ''/share''))) =
     [node_entry ''a'', node_entry ''b'', node_entry ''c''] \<and>
   lc_nodes (snd (update_node_list example_services (init ''/share''))) =
     [\<lparr>name = ''a'', state = ''active''\<rparr>, \<lparr>name = ''b'', state = ''unconfigured''\<rparr>] \<and>
   table_model (snd (update_node_list example_services (init ''/share''))) =
     Some \<lparr>table_data = [\<lparr>name = ''a'', state = ''active''\<rparr>, \<lparr>name = ''b'', state = ''unconfigured''\<rparr>],
           table_icons = state_icons ''/share''\<rparr>"
proof -
  let ?ns = "[node_entry ''a'', node_entry ''b'', node_entry ''c'']"
  let ?st = "init ''/share''"
  let ?r = "fst (update_node_list example_services ?st)"
  let ?st' = "snd (update_node_list example_services ?st)"
  have poll: "get_node_names example_services (list_calls ?st) = Inr ?ns"
    by (simp add: example_services_def init_def)
  have run: "update_node_list example_services ?st = (?r, ?st')"
    by simp
  have reps: "replies example_services (state_calls ?st) ?ns =
     [[(''a'', GotState ''active'')], [(''b'', GotState ''unconfigured'')],
      [(''c'', GotException ''timeout'')]]"
    by (simp add: example_services_def init_def node_entry_def)
  have own: "\<forall>(n, d) \<in> set (zip ?ns (replies example_services (state_calls ?st) ?ns)).
      fst ` set d \<subseteq> {nn_name n}"
    unfolding reps by (simp add: node_entry_def)
  have changed: "?ns \<noteq> lc_node_names ?st" and icons: "icons ?st = state_icons ''/share''"
    by (simp_all add: init_def)
  note inst = update_node_list_membership[OF poll run own]
  from inst changed have ok: "?r = Inr ()" and kept: "lc_node_names ?st' = ?ns"
    and tm: "table_model ?st' = Some \<lparr>table_data = lc_nodes ?st', table_icons = icons ?st\<rparr>"
    by blast+
  from inst changed have "lc_nodes ?st' =
         concat (map (\<lambda>(n, d). case map_of d (nn_name n) of
                         Some (GotState l) \<Rightarrow> [\<lparr>name = nn_name n, state = l\<rparr>]
                       | _ \<Rightarrow> [])
                   (zip ?ns (replies example_services (state_calls ?st) ?ns)))"
    by blast
  then have rows: "lc_nodes ?st' =
      [\<lparr>name = ''a'', state = ''active''\<rparr>, \<lparr>name = ''b'', state = ''unconfigured''\<rparr>]"
    unfolding reps by (simp add: node_entry_def)
  from tm have "table_model ?st' =
     Some \<lparr>table_data = [\<lparr>name = ''a'', state = ''active''\<rparr>, \<lparr>name = ''b'', state = ''unconfigured''\<rparr>],
           table_icons = state_icons ''/share''\<rparr>"
    unfolding rows icons .
  with poll reps ok kept rows show ?thesis by blast
qed

text \<open>The claim as stated fails: the poll returns \<open>a\<close>, \<open>b\<close> and \<open>c\<close>, and the table shows
  \<open>a\<close> and \<open>b\<close>.\<close>

theorem update_node_list_membership_counterexample:
  "get_node_names example_services (list_calls (init ''/share'')) =
     Inr [node_entry ''a'', node_entry ''b'', node_entry ''c''] \<and>
   map name (lc_nodes (snd (update_node_list example_services (init ''/share'')))) = [''a'', ''b''] \<and>
   map nn_name [node_entry ''a'', node_entry ''b'', node_entry ''c''] = [''a'', ''b'', ''c'']"
  by (simp add: update_node_list_def list_lc_nodes_def update_nodes_state_def example_services_def
        init_def node_entry_def dict_keys_def show_lc_nodes_def Let_def)

text \<open>
  Claim C3, as amended. When the directory raises a \<^verbatim>\<open>RuntimeError\<close>, the poll does
  not raise: the error is printed to standard output and the directory counts as empty.
  The plugin's node list is empty afterwards, and if it was not empty before, the table
  is rebuilt with no rows: the nodes known so far are cleared, not kept.
\<close>

theorem update_node_list_outage:
  assumes "get_node_names env (list_calls st) = Inl (RuntimeError e)"
  shows "fst (update_node_list env st) = Inr () \<and>
    lc_node_names (snd (update_node_list env st)) = [] \<and>
    stdout (snd (update_node_list env st)) = stdout st @ [e] \<and>
    (lc_node_names st \<noteq> [] \<longrightarrow>
       lc_nodes (snd (update_node_list env st)) = [] \<and>
       table_model (snd (update_node_list env st)) =
         Some \<lparr>table_data = [], table_icons = icons st\<rparr>) \<and>
    (lc_node_names st = [] \<longrightarrow>
       lc_nodes (snd (update_node_list env st)) = lc_nodes st \<and>
       table_model (snd (update_node_list env st)) = table_model st)"
  by (simp add: update_node_list_runtime_error[OF assms] update_nodes_state_result)

text \<open>The theorem at the second poll of the example directory, which fails.\<close>

theorem update_node_list_outage_witness:
  "get_node_names example_services (list_calls example_plugin) = Inl (RuntimeError ''discovery failed'') \<and>
   lc_node_names example_plugin \<noteq> [] \<and>
   fst (update_node_list example_services example_plugin) = Inr () \<and>
   lc_node_names (snd (update_node_list example_services example_plugin)) = [] \<and>
   lc_nodes (snd (update_node_list example_services example_plugin)) = [] \<and>
   stdout (snd (update_node_list example_services example_plugin)) = [''discovery failed'']"
proof -
  have poll: "get_node_names example_services (list_calls example_plugin) =
      Inl (RuntimeError ''discovery failed'')"
    by (simp add: example_services_def example_plugin_def)
  have shown: "lc_node_names example_plugin \<noteq> []" "stdout example_plugin = []"
    by (simp_all add: example_plugin_def init_def)
  from update_node_list_outage[OF poll] shown poll show ?thesis by simp
qed

text \<open>The claim as stated fails: the plugin shows \<open>a\<close>, \<open>b\<close> and \<open>c\<close>, the poll fails, and
  the table is empty afterwards.\<close>

theorem update_node_list_outage_counterexample:
  "map nn_name (lc_node_names example_plugin) = [''a'', ''b'', ''c''] \<and>
   map name (lc_nodes example_plugin) = [''a'', ''b'', ''c''] \<and>
   get_node_names example_services (list_calls example_plugin) = Inl (RuntimeError ''discovery failed'') \<and>
   fst (update_node_list example_services example_plugin) = Inr () \<and>
   lc_nodes (snd (update_node_list example_services example_plugin)) = [] \<and>
   table_model (snd (update_node_list example_services example_plugin)) =
     Some \<lparr>table_data = [], table_icons = state_icons ''/share''\<rparr>"
  by (simp add: update_node_list_def list_lc_nodes_def update_nodes_state_def example_services_def
        example_plugin_def init_def node_entry_def show_lc_nodes_def Let_def)

subsection \<open>Transition calls\<close>

lemma py_index_in_range:
  "0 \<le> i \<Longrightarrow> nat i < length xs \<Longrightarrow> py_index xs i = Inr (xs ! nat i)"
  by (auto simp: py_index_def)

lemma call_transition_calls:
  "change_calls (snd (call_transition env n l st)) = change_calls st @ [(n, l)]"
  by (simp add: call_transition_def Let_def split: option.splits change_result.splits)



text \<open>
  Claim C6, as amended. A transition call sends its request and then reads the result for
  the requested node from the reply. When the reply holds a result for the node, the call
  returns normally and does nothing but print one line: the exception of the service
  call, with the node name, to standard error; "Transitioning successful" to standard
  output for a true flag; "Transitioning failed" to standard error for a false flag.
  When the reply holds no result for the node, the call raises \<^verbatim>\<open>KeyError\<close> and
  prints nothing. Nothing else of the plugin changes.
\<close>

theorem call_transition_outcome:
  "fst (call_transition env n l st) =
     (case map_of (call_change_states env (change_calls st) n l) n of
        None \<Rightarrow> Inl (KeyError n)
      | Some r \<Rightarrow> Inr ()) \<and>
   change_calls (snd (call_transition env n l st)) = change_calls st @ [(n, l)] \<and>
   call_transition env n l st =
     (case map_of (call_change_states env (change_calls st) n l) n of
        None \<Rightarrow> (Inl (KeyError n), st\<lparr>change_calls := change_calls st @ [(n, l)]\<rparr>)
      | Some (ChangeException e) \<Rightarrow>
          (Inr (), st\<lparr>change_calls := change_calls st @ [(n, l)],
                      stderr := stderr st @
                        [''Exception while calling service of node '' @ [CHR 0x27] @ n
                           @ [CHR 0x27] @ '': '' @ e]\<rparr>)
      | Some (ChangeFlag b) \<Rightarrow>
          (Inr (),
           if b then st\<lparr>change_calls := change_calls st @ [(n, l)],
                        stdout := stdout st @ [''Transitioning successful'']\<rparr>
           else st\<lparr>change_calls := change_calls st @ [(n, l)],
                    stderr := stderr st @ [''Transitioning failed'']\<rparr>))"
  by (simp add: call_transition_def exception_line_def Let_def
      split: option.splits change_result.splits)

text \<open>The theorem at the example plugin, for a failure flag and for an exception.\<close>

theorem call_transition_outcome_witness:
  "call_transition example_services ''b'' ''configure'' example_plugin =
     (Inr (), example_plugin\<lparr>change_calls := [(''b'', ''configure'')],
                             stderr := [''Transitioning failed'']\<rparr>) \<and>
   call_transition raising_services ''b'' ''configure'' example_plugin =
     (Inr (), example_plugin\<lparr>change_calls := [(''b'', ''configure'')],
                             stderr := [''Exception while calling service of node '' @ [CHR 0x27]
                                @ ''b'' @ [CHR 0x27] @ '': timeout'']\<rparr>)"
proof -
  have empty: "change_calls example_plugin = []" "stderr example_plugin = []"
    by (simp_all add: example_plugin_def init_def)
  have flag: "map_of (call_change_states example_services (change_calls example_plugin)
      ''b'' ''configure'') ''b'' = Some (ChangeFlag False)"
    by (simp add: example_services_def)
  have exn: "map_of (call_change_states raising_services (change_calls example_plugin)
      ''b'' ''configure'') ''b'' = Some (ChangeException ''timeout'')"
    by (simp add: raising_services_def)
  note failed = call_transition_outcome[of example_services "''b''" "''configure''" example_plugin,
      THEN conjunct2, THEN conjunct2, unfolded flag]
  note raised = call_transition_outcome[of raising_services "''b''" "''configure''" example_plugin,
      THEN conjunct2, THEN conjunct2, unfolded exn]
  from failed raised show ?thesis
    by (simp add: empty)
qed

text \<open>The claim as stated fails: the reply holds no result for \<open>b\<close>, and the call
  raises.\<close>

theorem call_transition_counterexample:
  "map_of (call_change_states silent_services (change_calls example_plugin) ''b'' ''configure'') ''b''
     = None \<and>
   fst (call_transition silent_services ''b'' ''configure'' example_plugin) = Inl (KeyError ''b'')"
  by (simp add: call_transition_def silent_services_def Let_def)





subsection \<open>The context menu\<close>

lemma call_transitions_calls:
  "change_calls (snd (call_transitions env n l1 l2 st)) = change_calls st @ [(n, l1)] \<or>
   change_calls (snd (call_transitions env n l1 l2 st)) = change_calls st @ [(n, l1), (n, l2)]"
proof (cases "call_transition env n l1 st")
  case (Pair r st1)
  then have c1: "change_calls st1 = change_calls st @ [(n, l1)]"
    using call_transition_calls[of env n l1 st] by simp
  show ?thesis
  proof (cases r)
    case (Inl e)
    with Pair c1 show ?thesis by (simp add: call_transitions_def)
  next
    case (Inr u)
    with Pair c1 show ?thesis by (simp add: call_transitions_def call_transition_calls)
  qed
qed

lemma call_transition_fst:
  "fst (call_transition env n l st) = Inr () \<or> fst (call_transition env n l st) = Inl (KeyError n)"
  by (simp add: call_transition_def Let_def split: option.splits change_result.splits)

lemma call_transition_lc_nodes:
  "lc_nodes (snd (call_transition env n l st)) = lc_nodes st"
  by (simp add: call_transition_def Let_def split: option.splits change_result.splits)

lemma call_transitions_fst:
  "fst (call_transitions env n l1 l2 st) = Inr () \<or>
   fst (call_transitions env n l1 l2 st) = Inl (KeyError n)"
proof (cases "call_transition env n l1 st")
  case (Pair r st1)
  show ?thesis
  proof (cases r)
    case (Inl e)
    with Pair call_transition_fst[of env n l1 st] show ?thesis
      by (simp add: call_transitions_def)
  next
    case (Inr u)
    with Pair call_transition_fst[of env n l2 st1] show ?thesis
      by (simp add: call_transitions_def)
  qed
qed

lemma call_transitions_lc_nodes:
  "lc_nodes (snd (call_transitions env n l1 l2 st)) = lc_nodes st"
proof (cases "call_transition env n l1 st")
  case (Pair r st1)
  then have "lc_nodes st1 = lc_nodes st"
    using call_transition_lc_nodes[of env n l1 st] by simp
  with Pair show ?thesis
    by (cases r) (simp_all add: call_transitions_def call_transition_lc_nodes)
qed

lemma on_timeout_change_calls:
  "change_calls (snd (on_timeout env t st)) = change_calls st"
proof (cases t)
  case UpdateNodesStateTimer
  then show ?thesis by (simp add: on_timeout_def update_nodes_state_result)
next
  case UpdateNodeListTimer
  have "change_calls (snd (update_node_list env st)) = change_calls st"
    by (simp add: update_node_list_def list_lc_nodes_def Let_def update_nodes_state_result
        split: sum.splits py_exn.splits)
  with UpdateNodeListTimer show ?thesis by (simp add: on_timeout_def)
qed

lemma menu_exec_change_calls: "change_calls (menu_exec env ticks st) = change_calls st"
  by (induction ticks arbitrary: st) (simp_all add: on_timeout_change_calls)

text \<open>With no tick while the menu is open, the two definitions of the handler agree.\<close>

lemma on_lc_node_menu_exec_no_ticks:
  "on_lc_node_menu_exec env row_at [] action st = on_lc_node_menu env row_at action st"
  by (simp add: on_lc_node_menu_exec_def on_lc_node_menu_def evaluate_user_action_def
      split: sum.splits)

lemma evaluate_user_action_fst:
  "fst (evaluate_user_action env lc_node action st) = Inr () \<or>
   fst (evaluate_user_action env lc_node action st) = Inl (KeyError (name lc_node))"
  using call_transition_fst[of env "name lc_node" _ st]
    call_transitions_fst[of env "name lc_node" _ _ st]
  by (simp add: evaluate_user_action_def)

lemma evaluate_user_action_lc_nodes:
  "lc_nodes (snd (evaluate_user_action env lc_node action st)) = lc_nodes st"
  by (simp add: evaluate_user_action_def call_transition_lc_nodes call_transitions_lc_nodes)

lemma evaluate_user_action_unconfigured:
  assumes "state lc_node = ''unconfigured''"
  shows "change_calls (snd (evaluate_user_action env lc_node action st)) \<in>
     {change_calls st,
      change_calls st @ [(name lc_node, ''configure'')],
      change_calls st @ [(name lc_node, ''shutdown'')],
      change_calls st @ [(name lc_node, ''configure''), (name lc_node, ''activate'')]}"
  using assms call_transitions_calls[of env "name lc_node" "''configure''" "''activate''" st]
  by (auto simp: evaluate_user_action_def call_transition_calls)

text \<open>
  Claim C2, as amended. The handler decides by the row as it read it when the menu was
  opened, whatever the polls record while the menu is open. For a row that was in state
  unconfigured then, whichever entry is chosen, the handler sends nothing, or
  \<open>configure\<close>, or \<open>shutdown\<close>, or \<open>configure\<close> and then \<open>activate\<close>: the first transition
  is never \<open>activate\<close>. The state known when the entry is chosen is not looked at: for a
  row that was inactive when the menu was opened, the entry Activate sends \<open>activate\<close>,
  also when a poll has recorded another state for the node in the meantime. The handler
  returns normally, or raises \<^verbatim>\<open>KeyError\<close> when a reply of the transition service holds
  no result for the node; there is no other error, and the rows are left as the polls set
  them.
\<close>

theorem menu_dispatch_by_opened_row:
  assumes "0 \<le> row_at" and "nat row_at < length (lc_nodes st)"
    and "lc_nodes st ! nat row_at = lc_node"
  shows "(state lc_node = ''unconfigured'' \<longrightarrow>
       change_calls (snd (on_lc_node_menu_exec env row_at ticks action st)) \<in>
         {change_calls st,
          change_calls st @ [(name lc_node, ''configure'')],
          change_calls st @ [(name lc_node, ''shutdown'')],
          change_calls st @ [(name lc_node, ''configure''), (name lc_node, ''activate'')]}) \<and>
    (state lc_node = ''inactive'' \<longrightarrow>
       change_calls (snd (on_lc_node_menu_exec env row_at ticks (Some Activate) st)) =
         change_calls st @ [(name lc_node, ''activate'')]) \<and>
    (fst (on_lc_node_menu_exec env row_at ticks action st) = Inr () \<or>
     fst (on_lc_node_menu_exec env row_at ticks action st) = Inl (KeyError (name lc_node))) \<and>
    lc_nodes (snd (on_lc_node_menu_exec env row_at ticks action st)) =
      lc_nodes (menu_exec env ticks st)"
proof -
  have run: "on_lc_node_menu_exec env row_at ticks a st =
      evaluate_user_action env lc_node a (menu_exec env ticks st)" for a
    using assms by (simp add: on_lc_node_menu_exec_def py_index_in_range)
  have unconfigured: "change_calls (snd (on_lc_node_menu_exec env row_at ticks action st)) \<in>
         {change_calls st,
          change_calls st @ [(name lc_node, ''configure'')],
          change_calls st @ [(name lc_node, ''shutdown'')],
          change_calls st @ [(name lc_node, ''configure''), (name lc_node, ''activate'')]}"
    if "state lc_node = ''unconfigured''"
    using evaluate_user_action_unconfigured[OF that, of env action "menu_exec env ticks st"]
    by (simp add: run menu_exec_change_calls)
  have inactive: "change_calls (snd (on_lc_node_menu_exec env row_at ticks (Some Activate) st)) =
         change_calls st @ [(name lc_node, ''activate'')]"
    if "state lc_node = ''inactive''"
    using that
    by (simp add: run evaluate_user_action_def call_transition_calls menu_exec_change_calls)
  have outcome: "fst (on_lc_node_menu_exec env row_at ticks action st) = Inr () \<or>
     fst (on_lc_node_menu_exec env row_at ticks action st) = Inl (KeyError (name lc_node))"
    unfolding run by (rule evaluate_user_action_fst)
  have rows: "lc_nodes (snd (on_lc_node_menu_exec env row_at ticks action st)) =
      lc_nodes (menu_exec env ticks st)"
    unfolding run by (rule evaluate_user_action_lc_nodes)
  from unconfigured inactive outcome rows show ?thesis by blast
qed

text \<open>The theorem at row 1 of the example plugin (\<open>b\<close>, unconfigured) with the entry
  Configure of its menu, and at row 1 of the earlier plugin (\<open>b\<close>, inactive) with the
  entry Activate of its menu; in both a state update runs while the menu is open.\<close>

theorem menu_dispatch_by_opened_row_witness:
  "lc_nodes example_plugin ! nat 1 = \<lparr>name = ''b'', state = ''unconfigured''\<rparr> \<and>
   Some Configure \<in> Some ` snd ` set (menu_entries ''unconfigured'') \<and>
   change_calls (snd (on_lc_node_menu_exec example_services 1 [UpdateNodesStateTimer]
      (Some Configure) example_plugin)) = [(''b'', ''configure'')] \<and>
   lc_nodes stale_plugin ! nat 1 = \<lparr>name = ''b'', state = ''inactive''\<rparr> \<and>
   Some Activate \<in> Some ` snd ` set (menu_entries ''inactive'') \<and>
   change_calls (snd (on_lc_node_menu_exec example_services 1 [UpdateNodesStateTimer]
      (Some Activate) stale_plugin)) = [(''b'', ''activate'')] \<and>
   fst (on_lc_node_menu_exec example_services 1 [UpdateNodesStateTimer]
      (Some Activate) stale_plugin) = Inr ()"
proof -
  have row: "(0::int) \<le> 1" "nat 1 < length (lc_nodes example_plugin)"
    "lc_nodes example_plugin ! nat 1 = \<lparr>name = ''b'', state = ''unconfigured''\<rparr>"
    by (simp_all add: example_plugin_def)
  have stale: "nat 1 < length (lc_nodes stale_plugin)"
    "lc_nodes stale_plugin ! nat 1 = \<lparr>name = ''b'', state = ''inactive''\<rparr>"
    by (simp_all add: stale_plugin_def)
  have none: "change_calls example_plugin = []" "change_calls stale_plugin = []"
    by (simp_all add: stale_plugin_def example_plugin_def init_def)
  have offered: "Some Configure \<in> Some ` snd ` set (menu_entries ''unconfigured'')"
    "Some Activate \<in> Some ` snd ` set (menu_entries ''inactive'')"
    by (simp_all add: menu_entries_def)
  have configure: "change_calls (snd (on_lc_node_menu_exec example_services 1
      [UpdateNodesStateTimer] (Some Configure) example_plugin)) = [(''b'', ''configure'')]"
    by (simp add: on_lc_node_menu_exec_def py_index_def evaluate_user_action_def
        call_transition_calls on_timeout_change_calls example_plugin_def init_def)
  note inst = menu_dispatch_by_opened_row[OF row(1) stale, of example_services
      "[UpdateNodesStateTimer]" "Some Activate"]
  from inst none have activate: "change_calls (snd (on_lc_node_menu_exec example_services 1
      [UpdateNodesStateTimer] (Some Activate) stale_plugin)) = [(''b'', ''activate'')]"
    by simp
  have ok: "fst (on_lc_node_menu_exec example_services 1 [UpdateNodesStateTimer]
      (Some Activate) stale_plugin) = Inr ()"
    by (simp add: on_lc_node_menu_exec_def py_index_def evaluate_user_action_def
        call_transition_def example_services_def stale_plugin_def Let_def)
  from row(3) stale(2) offered configure activate ok show ?thesis by blast
qed

text \<open>The claim as stated fails. The menu is opened on \<open>b\<close> while it is shown as inactive
  and offers Activate; a state update runs while the menu is open and records \<open>b\<close> as
  unconfigured; the operator chooses Activate. The handler does not fail: it sends
  \<open>activate\<close> for \<open>b\<close> and returns normally.\<close>

theorem stale_menu_activate_counterexample:
  "state (lc_nodes stale_plugin ! nat 1) = ''inactive'' \<and>
   Some Activate \<in> Some ` snd ` set (menu_entries ''inactive'') \<and>
   lc_nodes (menu_exec example_services [UpdateNodesStateTimer] stale_plugin) =
     [\<lparr>name = ''a'', state = ''active''\<rparr>, \<lparr>name = ''b'', state = ''unconfigured''\<rparr>] \<and>
   fst (on_lc_node_menu_exec example_services 1 [UpdateNodesStateTimer] (Some Activate)
      stale_plugin) = Inr () \<and>
   change_calls (snd (on_lc_node_menu_exec example_services 1 [UpdateNodesStateTimer]
      (Some Activate) stale_plugin)) = [(''b'', ''activate'')]"
  by (simp add: on_lc_node_menu_exec_def py_index_def evaluate_user_action_def on_timeout_def
      call_transition_def update_nodes_state_def show_lc_nodes_def dict_keys_def menu_entries_def
      example_services_def stale_plugin_def example_plugin_def init_def node_entry_def Let_def)



subsection \<open>The cells of the table\<close>

text \<open>
  Claim C7, as amended. For a valid index of a row of the table, with the icons of the
  plugin: in column 0 the display value is the node name, the font is bold, and the
  decoration is the icon of the row's state when the state is active, inactive,
  unconfigured or finalized, and nothing for any other state (there is no icon for an
  unknown state); in column 1 the display value is the state label, or the text
  "not loaded" when the label is empty, and the alignment is centered.
\<close>

theorem table_data_roles:
  assumes "isValid index" and "0 \<le> index_row index"
    and "nat (index_row index) < length (table_data m)"
    and "table_data m ! nat (index_row index) = lc_node"
    and "table_icons m = state_icons path"
  shows "(index_column index = 0 \<longrightarrow>
       data m index DisplayRole = Inr (PyStr (name lc_node)) \<and>
       data m index FontRole = Inr (QFont True) \<and>
       data m index DecorationRole =
         Inr (if state lc_node = ''active'' then QIcon (path @ ''/resource/led_green.png'')
              else if state lc_node = ''inactive'' then QIcon (path @ ''/resource/led_red.png'')
              else if state lc_node = ''finalized'' \<or> state lc_node = ''unconfigured''
                then QIcon (path @ ''/resource/led_off.png'')
              else PyNone)) \<and>
    (index_column index = 1 \<longrightarrow>
       data m index DisplayRole =
         Inr (PyStr (if state lc_node = [] then ''not loaded'' else state lc_node)) \<and>
       data m index TextAlignmentRole = Inr (QtAlignment AlignCenter))"
  using assms by (simp add: data_def py_index_in_range state_icons_def)

text \<open>The theorem at row 0 of the example plugin.\<close>

theorem table_data_roles_witness:
  "data \<lparr>table_data = lc_nodes example_plugin, table_icons = state_icons ''/share''\<rparr>
     \<lparr>isValid = True, index_row = 0, index_column = 0\<rparr> DisplayRole = Inr (PyStr ''a'') \<and>
   data \<lparr>table_data = lc_nodes example_plugin, table_icons = state_icons ''/share''\<rparr>
     \<lparr>isValid = True, index_row = 0, index_column = 0\<rparr> DecorationRole =
     Inr (QIcon ''/share/resource/led_green.png'') \<and>
   data \<lparr>table_data = lc_nodes example_plugin, table_icons = state_icons ''/share''\<rparr>
     \<lparr>isValid = True, index_row = 0, index_column = 1\<rparr> DisplayRole = Inr (PyStr ''active'') \<and>
   data \<lparr>table_data = lc_nodes example_plugin, table_icons = state_icons ''/share''\<rparr>
     \<lparr>isValid = True, index_row = 0, index_column = 1\<rparr> TextAlignmentRole =
     Inr (QtAlignment AlignCenter)"
proof -
  let ?m = "\<lparr>table_data = lc_nodes example_plugin, table_icons = state_icons ''/share''\<rparr>"
  have row: "table_data ?m ! nat 0 = \<lparr>name = ''a'', state = ''active''\<rparr>"
    and len: "nat 0 < length (table_data ?m)"
    by (simp_all add: example_plugin_def)
  have "index_column \<lparr>isValid = True, index_row = 0, index_column = 0\<rparr> = 0"
    and "index_column \<lparr>isValid = True, index_row = 0, index_column = 1\<rparr> = 1"
    by simp_all
  with table_data_roles[of "\<lparr>isValid = True, index_row = 0, index_column = 0\<rparr>" ?m
      "\<lparr>name = ''a'', state = ''active''\<rparr>" "''/share''"]
    table_data_roles[of "\<lparr>isValid = True, index_row = 0, index_column = 1\<rparr>" ?m
      "\<lparr>name = ''a'', state = ''active''\<rparr>" "''/share''"]
    row len
  show ?thesis by simp
qed

text \<open>The claim as stated fails: a row shown as "not loaded" (its label is empty) has no
  icon, and neither has a row with the label \<open>unknown\<close>.\<close>

theorem table_data_unknown_counterexample:
  "data \<lparr>table_data = [\<lparr>name = ''d'', state = []\<rparr>], table_icons = state_icons ''/share''\<rparr>
     \<lparr>isValid = True, index_row = 0, index_column = 1\<rparr> DisplayRole = Inr (PyStr ''not loaded'') \<and>
   data \<lparr>table_data = [\<lparr>name = ''d'', state = []\<rparr>], table_icons = state_icons ''/share''\<rparr>
     \<lparr>isValid = True, index_row = 0, index_column = 0\<rparr> DecorationRole = Inr PyNone \<and>
   data \<lparr>table_data = [\<lparr>name = ''d'', state = ''unknown''\<rparr>], table_icons = state_icons ''/share''\<rparr>
     \<lparr>isValid = True, index_row = 0, index_column = 0\<rparr> DecorationRole = Inr PyNone \<and>
   map_of (state_icons ''/share'') ''unknown'' = None"
  by (simp add: data_def py_index_def state_icons_def)

end
